theory Spec2Isabelle
  imports Main "HOL-Library.Word" "HOL-Library.AList" "HOL-Library.Multiset"
begin

section \<open>JavaScript values used by App.jsx\<close>

text \<open>
  A JavaScript string is a sequence of 16-bit code units. \<open>String.prototype.trim\<close>
  removes the ECMAScript WhiteSpace and LineTerminator code points from both ends; all of
  them lie in the basic plane, so each is one code unit.
\<close>

type_synonym jsstring = "16 word list"

definition isWhiteSpace :: "16 word \<Rightarrow> bool" where
  "isWhiteSpace c \<longleftrightarrow>
     c = 0x0009 \<or> c = 0x000A \<or> c = 0x000B \<or> c = 0x000C \<or> c = 0x000D \<or> c = 0x0020 \<or>
     c = 0x00A0 \<or> c = 0x1680 \<or> (0x2000 \<le> c \<and> c \<le> 0x200A) \<or> c = 0x2028 \<or>
     c = 0x2029 \<or> c = 0x202F \<or> c = 0x205F \<or> c = 0x3000 \<or> c = 0xFEFF"

definition trim :: "jsstring \<Rightarrow> jsstring" where
  "trim s = rev (dropWhile isWhiteSpace (rev (dropWhile isWhiteSpace s)))"

text \<open>
  Truthiness of a state variable that holds \<open>null\<close> or a string (\<open>userId\<close>,
  \<open>currentGroupId\<close>): \<open>null\<close> and the empty string are falsy.
\<close>

definition truthy :: "jsstring option \<Rightarrow> bool" where
  "truthy v = (case v of None \<Rightarrow> False | Some x \<Rightarrow> x \<noteq> [])"

section \<open>The Firestore documents and collections\<close>

text \<open>
  A Firestore \<open>Timestamp\<close> has whole seconds since the epoch and a nanosecond fraction.
  A timestamp field is \<open>None\<close> where the snapshot carries \<open>null\<close> (a server timestamp
  that is still pending).
\<close>

record fs_timestamp =
  seconds :: int
  nanoseconds :: int

text \<open>Documents of \<open>groups\<close>, \<open>groups/{id}/members\<close> and \<open>compliments\<close>.\<close>

record group_doc =
  g_groupName :: jsstring
  g_creatorId :: "jsstring option"
  g_createdAt :: "fs_timestamp option"

record member_doc =
  m_userName :: jsstring
  m_joinedAt :: "fs_timestamp option"

record compliment =
  senderId :: "jsstring option"
  receiverId :: jsstring
  groupId :: "jsstring option"
  message :: jsstring
  timestamp :: "fs_timestamp option"

text \<open>
  A collection is an association list from document id to document, in the order in which
  a snapshot lists it. Document ids are opaque keys (one path segment each). A document of
  \<open>users\<close> is kept as its list of fields, so that replacing a document can be told from
  merging into it. A member document is keyed by the pair (group id, member id).
\<close>

type_synonym user_doc = "(string \<times> jsstring) list"

record store =
  users :: "(jsstring \<times> user_doc) list"
  groups :: "(jsstring \<times> group_doc) list"
  members :: "((jsstring \<times> jsstring) \<times> member_doc) list"
  compliments :: "(jsstring \<times> compliment) list"

text \<open>\<open>setDoc(ref, data)\<close> without merge options: create or overwrite the whole document.\<close>

definition setDoc :: "'k \<Rightarrow> 'v \<Rightarrow> ('k \<times> 'v) list \<Rightarrow> ('k \<times> 'v) list" where
  "setDoc k v col = AList.update k v col"

text \<open>\<open>getDoc(ref)\<close>: the document, or \<open>None\<close> when \<open>exists()\<close> is false.\<close>

definition getDoc :: "'k \<Rightarrow> ('k \<times> 'v) list \<Rightarrow> 'v option" where
  "getDoc k col = map_of col k"

text \<open>
  A write batch is the list of its \<open>batch.set\<close> calls. The timestamp fields written as
  \<open>serverTimestamp()\<close> are filled with the server's time when the batch commits.
  \<open>batch.commit()\<close> applies every write or, when it rejects, none.
\<close>

datatype batch_write =
    SetGroup jsstring jsstring "jsstring option"
  | SetMember jsstring jsstring jsstring

fun apply_write :: "fs_timestamp \<Rightarrow> store \<Rightarrow> batch_write \<Rightarrow> store" where
  "apply_write now db (SetGroup gid name creator) =
     db\<lparr>groups := setDoc gid
        \<lparr>g_groupName = name, g_creatorId = creator, g_createdAt = Some now\<rparr> (groups db)\<rparr>"
| "apply_write now db (SetMember gid uid name) =
     db\<lparr>members := setDoc (gid, uid)
        \<lparr>m_userName = name, m_joinedAt = Some now\<rparr> (members db)\<rparr>"

definition commit :: "bool \<Rightarrow> fs_timestamp \<Rightarrow> batch_write list \<Rightarrow> store \<Rightarrow> store option" where
  "commit ok now batch db = (if ok then Some (foldl (apply_write now) db batch) else None)"

section \<open>The session: React state, localStorage and the live listeners\<close>

datatype ntype = success | error

text \<open>The messages passed to \<open>showNotification\<close>, one constructor per literal of the source.\<close>

datatype notice =
    PleaseEnterName           \<comment> \<open>'Please enter a name.'\<close>
  | UserIdNotReady            \<comment> \<open>'User ID not ready. Please wait a moment.'\<close>
  | NameUpdated               \<comment> \<open>'Name updated successfully!'\<close>
  | CouldNotSaveName          \<comment> \<open>'Could not save your name.'\<close>
  | PleaseEnterGroupName      \<comment> \<open>'Please enter a group name.'\<close>
  | SetDisplayNameFirst       \<comment> \<open>'Please set your display name first.'\<close>
  | GroupCreated jsstring     \<comment> \<open>`Group "${newGroupName}" created!`\<close>
  | CouldNotCreateGroup       \<comment> \<open>'Could not create the group.'\<close>
  | PleaseEnterGroupId        \<comment> \<open>'Please enter a Group ID.'\<close>
  | NoGroupFound              \<comment> \<open>'No group found with that ID.'\<close>
  | JoinedGroup jsstring      \<comment> \<open>`Successfully joined "${groupSnap.data().groupName}"!`\<close>
  | CouldNotJoinGroup         \<comment> \<open>'Could not join the group.'\<close>
  | LeftGroup                 \<comment> \<open>"You have left the group."\<close>
  | GroupMayBeDeleted         \<comment> \<open>"The group you were in may have been deleted."\<close>
  | SelectMemberAndMessage    \<comment> \<open>'Please select a member and write a message.'\<close>
  | ComplimentSent            \<comment> \<open>'Secret compliment sent!'\<close>
  | CouldNotSendCompliment    \<comment> \<open>'Could not send your compliment.'\<close>

text \<open>
  The four \<open>onSnapshot\<close> listeners of the group effect, each with the keys its query was
  built from.
\<close>

datatype target =
    GroupMeta jsstring
  | Roster jsstring
  | Received jsstring jsstring
  | Sent jsstring jsstring

text \<open>
  The \<open>useState\<close> variables of \<open>App\<close>, the \<open>lastGroupId\<close> entry of localStorage,
  the notification banner (\<open>None\<close> when \<open>show\<close> is false), the history of
  \<open>showNotification\<close> calls (oldest first), the listeners that are attached (each with
  the handle its \<open>onSnapshot\<close> returned), and the handles that the cleanup function
  returned by the last run of the group effect disposes. An object
  \<open>{id: d.id, ...d.data()}\<close> built from a snapshot document is the pair of the id and the
  data.
\<close>

record session =
  userId :: "jsstring option"
  isAuthReady :: bool
  userName :: jsstring
  editingName :: jsstring
  isEditingName :: bool
  currentGroupId :: "jsstring option"
  groupName :: jsstring
  groupMembers :: "(jsstring \<times> member_doc) list"
  receivedCompliments :: "(jsstring \<times> compliment) list"
  sentCompliments :: "(jsstring \<times> compliment) list"
  complimentMessage :: jsstring
  selectedFriendId :: jsstring
  notification :: "(notice \<times> ntype) option"
  lastGroupId :: "jsstring option"
  raised :: "(notice \<times> ntype) list"
  listeners :: "(nat \<times> target) list"
  nextHandle :: nat
  cleanup :: "nat list"

text \<open>
  \<open>showNotification(message, type)\<close> sets the banner. The timer it starts, which hides
  the banner three seconds later, is the event \<open>NotificationTimeout\<close> below.
\<close>

definition showNotification :: "notice \<Rightarrow> ntype \<Rightarrow> session \<Rightarrow> session" where
  "showNotification msg ty s = s\<lparr>notification := Some (msg, ty), raised := raised s @ [(msg, ty)]\<rparr>"

section \<open>The handlers\<close>

text \<open>
  \<open>handleSendCompliment\<close>. \<open>addDoc\<close> allocates the id \<open>new_id\<close> and sets the
  document there; \<open>write_ok\<close> tells whether the store accepts the write, \<open>now\<close> is the
  server's time.
\<close>

definition handleSendCompliment ::
  "jsstring \<Rightarrow> bool \<Rightarrow> fs_timestamp \<Rightarrow> session \<Rightarrow> store \<Rightarrow> session \<times> store" where
  "handleSendCompliment new_id write_ok now s db =
     (if selectedFriendId s = [] \<or> trim (complimentMessage s) = []
      then (showNotification SelectMemberAndMessage error s, db)
      else if write_ok
      then (showNotification ComplimentSent success s
              \<lparr>complimentMessage := [], selectedFriendId := []\<rparr>,
            db\<lparr>compliments := setDoc new_id
                 \<lparr>senderId = userId s, receiverId = selectedFriendId s,
                  groupId = currentGroupId s, message = complimentMessage s,
                  timestamp = Some now\<rparr> (compliments db)\<rparr>)
      else (showNotification CouldNotSendCompliment error s, db))"

text \<open>
  \<open>doc(db, path, id)\<close> throws when \<open>id\<close> is \<open>null\<close> or empty; inside a \<open>try\<close> the
  handler then runs its \<open>catch\<close> block.

  \<open>handleSaveName\<close> (the submit handler of the name form).
\<close>

definition handleSaveName :: "bool \<Rightarrow> session \<Rightarrow> store \<Rightarrow> session \<times> store" where
  "handleSaveName write_ok s db =
     (if trim (editingName s) = [] then (showNotification PleaseEnterName error s, db)
      else case userId s of
        None \<Rightarrow> (showNotification UserIdNotReady error s, db)
      | Some u \<Rightarrow>
          if u = [] then (showNotification UserIdNotReady error s, db)
          else if write_ok
          then ((showNotification NameUpdated success s)\<lparr>isEditingName := False\<rparr>,
                db\<lparr>users := setDoc u [(''name'', trim (editingName s))] (users db)\<rparr>)
          else (showNotification CouldNotSaveName error s, db))"

text \<open>
  \<open>handleCreateGroup\<close>. \<open>new_id\<close> is the id of \<open>doc(collection(db, "groups"))\<close>,
  \<open>commit_ok\<close> tells whether \<open>batch.commit()\<close> resolves.
\<close>

definition handleCreateGroup ::
  "jsstring \<Rightarrow> bool \<Rightarrow> fs_timestamp \<Rightarrow> jsstring \<Rightarrow> session \<Rightarrow> store \<Rightarrow> session \<times> store" where
  "handleCreateGroup new_id commit_ok now newGroupName s db =
     (if trim newGroupName = [] then (showNotification PleaseEnterGroupName error s, db)
      else if userName s = [] then (showNotification SetDisplayNameFirst error s, db)
      else case userId s of
        None \<Rightarrow> (showNotification CouldNotCreateGroup error s, db)
      | Some u \<Rightarrow>
          if u = [] then (showNotification CouldNotCreateGroup error s, db)
          else
            (let batch = SetGroup new_id (trim newGroupName) (userId s) #
                         SetMember new_id u (userName s) # []
             in (case commit commit_ok now batch db of
                   None \<Rightarrow> (showNotification CouldNotCreateGroup error s, db)
                 | Some db' \<Rightarrow>
                     (showNotification (GroupCreated newGroupName) success
                        (s\<lparr>currentGroupId := Some new_id, lastGroupId := Some new_id\<rparr>), db'))))"

text \<open>
  \<open>doc(db, "groups", id)\<close> does not take \<open>id\<close> as one key: it throws when \<open>id\<close>
  contains \<open>//\<close>, splits it at every \<open>/\<close>, drops the empty pieces, and throws unless
  the path \<open>groups/...\<close> then has an even number of segments. With one piece the reference
  is to a group document, with three pieces \<open>g/members/m\<close> to a member document, and
  otherwise to a document outside the collections of the schema. \<open>ref.id\<close> is the last
  segment.
\<close>

fun split_slash :: "jsstring \<Rightarrow> jsstring list" where
  "split_slash [] = [[]]"
| "split_slash (c # cs) =
     (if c = 0x2F then [] # split_slash cs
      else (case split_slash cs of [] \<Rightarrow> [[c]] | w # ws \<Rightarrow> (c # w) # ws))"

fun double_slash :: "jsstring \<Rightarrow> bool" where
  "double_slash (a # b # cs) = ((a = 0x2F \<and> b = 0x2F) \<or> double_slash (b # cs))"
| "double_slash cs = False"

datatype doc_ref =
    GroupRef jsstring
  | MemberRef jsstring jsstring
  | OtherRef jsstring

fun ref_id :: "doc_ref \<Rightarrow> jsstring" where
  "ref_id (GroupRef k) = k"
| "ref_id (MemberRef k m) = m"
| "ref_id (OtherRef i) = i"

text \<open>The string "members".\<close>

definition members_name :: jsstring where
  "members_name = [0x6D, 0x65, 0x6D, 0x62, 0x65, 0x72, 0x73]"

definition groupDoc :: "jsstring \<Rightarrow> doc_ref option" where
  "groupDoc i =
     (if double_slash i then None
      else let segs = filter (\<lambda>w. w \<noteq> []) (split_slash i)
           in if even (length segs) then None
              else (case segs of
                      [k] \<Rightarrow> Some (GroupRef k)
                    | [k, c, m] \<Rightarrow> Some (if c = members_name then MemberRef k m else OtherRef m)
                    | _ \<Rightarrow> Some (OtherRef (last segs))))"

text \<open>
  What \<open>handleJoinGroup\<close> reads from the snapshot of such a reference: \<open>None\<close> when
  \<open>exists()\<close> is false, otherwise the text that the template literal makes of
  \<open>data().groupName\<close>, which is "undefined" for a member document. The store holds the
  collections of the schema only, so no other path has a document.
\<close>

definition undefined_text :: jsstring where
  "undefined_text = [0x75, 0x6E, 0x64, 0x65, 0x66, 0x69, 0x6E, 0x65, 0x64]"

fun snap_groupName :: "doc_ref \<Rightarrow> store \<Rightarrow> jsstring option" where
  "snap_groupName (GroupRef k) db = map_option g_groupName (getDoc k (groups db))"
| "snap_groupName (MemberRef k m) db = map_option (\<lambda>d. undefined_text) (getDoc (k, m) (members db))"
| "snap_groupName (OtherRef i) db = None"

text \<open>
  \<open>handleJoinGroup\<close>. \<open>read_ok\<close> tells whether \<open>getDoc\<close> resolves, \<open>write_ok\<close>
  whether \<open>setDoc\<close> does. The member document is written under \<open>groupRef.id\<close>, and
  that id becomes the current group.
\<close>

definition handleJoinGroup ::
  "bool \<Rightarrow> bool \<Rightarrow> fs_timestamp \<Rightarrow> jsstring \<Rightarrow> session \<Rightarrow> store \<Rightarrow> session \<times> store" where
  "handleJoinGroup read_ok write_ok now groupIdToJoin s db =
     (if trim groupIdToJoin = [] then (showNotification PleaseEnterGroupId error s, db)
      else if userName s = [] then (showNotification SetDisplayNameFirst error s, db)
      else case groupDoc (trim groupIdToJoin) of
        None \<Rightarrow> (showNotification CouldNotJoinGroup error s, db)
      | Some groupRef \<Rightarrow>
          if \<not> read_ok then (showNotification CouldNotJoinGroup error s, db)
          else
            (case snap_groupName groupRef db of
               None \<Rightarrow> (showNotification NoGroupFound error s, db)
             | Some name \<Rightarrow>
                 (case userId s of
                    None \<Rightarrow> (showNotification CouldNotJoinGroup error s, db)
                  | Some u \<Rightarrow>
                      if u = [] \<or> \<not> write_ok
                      then (showNotification CouldNotJoinGroup error s, db)
                      else
                        (showNotification (JoinedGroup name) success
                           (s\<lparr>currentGroupId := Some (ref_id groupRef),
                              lastGroupId := Some (ref_id groupRef)\<rparr>),
                         db\<lparr>members := setDoc (ref_id groupRef, u)
                              \<lparr>m_userName = userName s, m_joinedAt = Some now\<rparr>
                              (members db)\<rparr>))))"

definition handleLeaveGroup :: "session \<Rightarrow> session" where
  "handleLeaveGroup s =
     showNotification LeftGroup success (s\<lparr>currentGroupId := None, lastGroupId := None\<rparr>)"

section \<open>The snapshot callbacks and their queries\<close>

text \<open>
  \<open>Array.prototype.sort(comparefn)\<close> is stable and orders \<open>a\<close> before \<open>b\<close> when
  \<open>comparefn(a, b)\<close> is not positive; it is modelled by a stable insertion sort.
\<close>

fun insort_cmp :: "('a \<Rightarrow> 'a \<Rightarrow> int) \<Rightarrow> 'a \<Rightarrow> 'a list \<Rightarrow> 'a list" where
  "insort_cmp cmp x [] = [x]"
| "insort_cmp cmp x (y # ys) = (if cmp x y \<le> 0 then x # y # ys else y # insort_cmp cmp x ys)"

definition array_sort :: "('a \<Rightarrow> 'a \<Rightarrow> int) \<Rightarrow> 'a list \<Rightarrow> 'a list" where
  "array_sort cmp xs = foldr (insort_cmp cmp) xs []"

text \<open>\<open>c.timestamp?.seconds || 0\<close>\<close>

definition seconds_or_0 :: "jsstring \<times> compliment \<Rightarrow> int" where
  "seconds_or_0 c = (case timestamp (snd c) of None \<Rightarrow> 0 | Some t \<Rightarrow> seconds t)"

text \<open>
  \<open>(a, b) => (b.timestamp?.seconds || 0) - (a.timestamp?.seconds || 0)\<close>. The seconds of
  a Firestore timestamp are integers far below \<open>2^53\<close>, so the difference is exact.
\<close>

definition by_timestamp :: "jsstring \<times> compliment \<Rightarrow> jsstring \<times> compliment \<Rightarrow> int" where
  "by_timestamp a b = seconds_or_0 b - seconds_or_0 a"

text \<open>The documents matched by the three collection queries of the group effect.\<close>

definition membersQuery :: "jsstring \<Rightarrow> store \<Rightarrow> (jsstring \<times> member_doc) list" where
  "membersQuery gid db = map (\<lambda>((g, u), d). (u, d)) (filter (\<lambda>((g, u), d). g = gid) (members db))"

definition receivedQuery :: "jsstring \<Rightarrow> jsstring \<Rightarrow> store \<Rightarrow> (jsstring \<times> compliment) list" where
  "receivedQuery uid gid db =
     filter (\<lambda>(i, c). receiverId c = uid \<and> groupId c = Some gid) (compliments db)"

definition sentQuery :: "jsstring \<Rightarrow> jsstring \<Rightarrow> store \<Rightarrow> (jsstring \<times> compliment) list" where
  "sentQuery uid gid db =
     filter (\<lambda>(i, c). senderId c = Some uid \<and> groupId c = Some gid) (compliments db)"

text \<open>The callbacks, each applied to the documents of the snapshot it is given.\<close>

definition onProfileSnapshot :: "user_doc option \<Rightarrow> session \<Rightarrow> session" where
  "onProfileSnapshot d s =
     (case d of
        None \<Rightarrow> s\<lparr>isEditingName := True\<rparr>
      | Some data \<Rightarrow>
          (case map_of data ''name'' of
             None \<Rightarrow> s\<lparr>isEditingName := True\<rparr>
           | Some name \<Rightarrow>
               if name = [] then s\<lparr>isEditingName := True\<rparr>
               else s\<lparr>userName := name, editingName := name, isEditingName := False\<rparr>))"

definition onGroupSnapshot :: "group_doc option \<Rightarrow> session \<Rightarrow> session" where
  "onGroupSnapshot d s =
     (case d of
        Some g \<Rightarrow> s\<lparr>groupName := g_groupName g\<rparr>
      | None \<Rightarrow> handleLeaveGroup (showNotification GroupMayBeDeleted error s))"

definition onMembersSnapshot :: "(jsstring \<times> member_doc) list \<Rightarrow> session \<Rightarrow> session" where
  "onMembersSnapshot docs s = s\<lparr>groupMembers := map (\<lambda>d. (fst d, snd d)) docs\<rparr>"

definition onReceivedSnapshot :: "(jsstring \<times> compliment) list \<Rightarrow> session \<Rightarrow> session" where
  "onReceivedSnapshot docs s =
     s\<lparr>receivedCompliments := array_sort by_timestamp (map (\<lambda>d. (fst d, snd d)) docs)\<rparr>"

definition onSentSnapshot :: "(jsstring \<times> compliment) list \<Rightarrow> session \<Rightarrow> session" where
  "onSentSnapshot docs s =
     s\<lparr>sentCompliments := array_sort by_timestamp (map (\<lambda>d. (fst d, snd d)) docs)\<rparr>"

section \<open>The group effect and its listeners\<close>

text \<open>
  The body of the effect with dependencies \<open>[isAuthReady, userId, currentGroupId]\<close>: it
  either resets the four views and returns no cleanup, or attaches the four listeners and
  returns the cleanup that disposes them.
\<close>

definition resetViews :: "session \<Rightarrow> session" where
  "resetViews s =
     s\<lparr>groupMembers := [], receivedCompliments := [], sentCompliments := [], groupName := [],
       cleanup := []\<rparr>"

definition groupEffect :: "session \<Rightarrow> session" where
  "groupEffect s =
     (if \<not> isAuthReady s \<or> \<not> truthy (userId s) \<or> \<not> truthy (currentGroupId s) then resetViews s
      else case userId s of
        None \<Rightarrow> resetViews s
      | Some u \<Rightarrow>
          (case currentGroupId s of
             None \<Rightarrow> resetViews s
           | Some g \<Rightarrow>
               s\<lparr>listeners := listeners s @
                    [(nextHandle s, GroupMeta g), (nextHandle s + 1, Roster g),
                     (nextHandle s + 2, Received u g), (nextHandle s + 3, Sent u g)],
                 nextHandle := nextHandle s + 4,
                 cleanup := [nextHandle s, nextHandle s + 1, nextHandle s + 2, nextHandle s + 3]\<rparr>))"

text \<open>Calling the function that \<open>onSnapshot\<close> returned detaches that listener.\<close>

definition unsubscribe :: "nat \<Rightarrow> session \<Rightarrow> session" where
  "unsubscribe h s = s\<lparr>listeners := filter (\<lambda>l. fst l \<noteq> h) (listeners s)\<rparr>"

text \<open>The cleanup function of the last run: it calls the four unsubscribe functions.\<close>

definition runCleanup :: "session \<Rightarrow> session" where
  "runCleanup s = (fold unsubscribe (cleanup s) s)\<lparr>cleanup := []\<rparr>"

text \<open>
  When a dependency of the effect has changed, React runs the cleanup of the previous run
  and then the body of the effect.
\<close>

definition rerunGroupEffect :: "session \<Rightarrow> session" where
  "rerunGroupEffect s = groupEffect (runCleanup s)"

text \<open>
  The store pushes a snapshot to the listener with handle \<open>h\<close>: a detached listener
  receives nothing, an attached one is called with the result of its own query.
\<close>

definition deliver :: "nat \<Rightarrow> store \<Rightarrow> session \<Rightarrow> session" where
  "deliver h db s =
     (case map_of (listeners s) h of
        None \<Rightarrow> s
      | Some (GroupMeta g) \<Rightarrow> onGroupSnapshot (getDoc g (groups db)) s
      | Some (Roster g) \<Rightarrow> onMembersSnapshot (membersQuery g db) s
      | Some (Received u g) \<Rightarrow> onReceivedSnapshot (receivedQuery u g db) s
      | Some (Sent u g) \<Rightarrow> onSentSnapshot (sentQuery u g db) s)"

section \<open>Events and the update cycle\<close>

text \<open>
  What can happen to a running session: the identity provider reports the user, a listener
  is pushed a snapshot, the user types or submits a form, other clients change the store,
  the timer of a notification fires. The parameters of an event are those of its handler.
\<close>

datatype event =
    AuthChanged jsstring
  | ProfilePushed
  | NameTyped jsstring
  | EditNameClicked
  | SubmitName bool
  | CreateGroup jsstring bool fs_timestamp jsstring
  | JoinGroup bool bool fs_timestamp jsstring
  | LeaveGroup
  | FriendSelected jsstring
  | MessageTyped jsstring
  | SendCompliment jsstring bool fs_timestamp
  | Pushed nat
  | StoreChanged store
  | NotificationTimeout

fun handle :: "event \<Rightarrow> session \<times> store \<Rightarrow> session \<times> store" where
  "handle (AuthChanged uid) (s, db) = (s\<lparr>userId := Some uid, isAuthReady := True\<rparr>, db)"
| "handle ProfilePushed (s, db) =
     (case userId s of
        None \<Rightarrow> (s, db)
      | Some u \<Rightarrow> (if isAuthReady s \<and> u \<noteq> [] then onProfileSnapshot (getDoc u (users db)) s else s, db))"
| "handle (NameTyped v) (s, db) = (s\<lparr>editingName := v\<rparr>, db)"
| "handle EditNameClicked (s, db) = (s\<lparr>isEditingName := True\<rparr>, db)"
| "handle (SubmitName write_ok) (s, db) = handleSaveName write_ok s db"
| "handle (CreateGroup new_id commit_ok now name) (s, db) =
     handleCreateGroup new_id commit_ok now name s db"
| "handle (JoinGroup read_ok write_ok now gid) (s, db) =
     handleJoinGroup read_ok write_ok now gid s db"
| "handle LeaveGroup (s, db) = (handleLeaveGroup s, db)"
| "handle (FriendSelected v) (s, db) = (s\<lparr>selectedFriendId := v\<rparr>, db)"
| "handle (MessageTyped v) (s, db) = (s\<lparr>complimentMessage := v\<rparr>, db)"
| "handle (SendCompliment new_id write_ok now) (s, db) =
     handleSendCompliment new_id write_ok now s db"
| "handle (Pushed h) (s, db) = (deliver h db s, db)"
| "handle (StoreChanged db') (s, db) = (s, db')"
| "handle NotificationTimeout (s, db) = (s\<lparr>notification := None\<rparr>, db)"

text \<open>The dependency array of the group effect.\<close>

definition deps :: "session \<Rightarrow> bool \<times> jsstring option \<times> jsstring option" where
  "deps s = (isAuthReady s, userId s, currentGroupId s)"

text \<open>
  One update: the handler runs, and when it has changed a dependency of the group effect
  the effect runs again (previous cleanup first).
\<close>

definition react_step :: "event \<Rightarrow> session \<times> store \<Rightarrow> session \<times> store" where
  "react_step ev w =
     (let w' = handle ev w
      in if deps (fst w') = deps (fst w) then w' else (rerunGroupEffect (fst w'), snd w'))"

definition run :: "event list \<Rightarrow> session \<times> store \<Rightarrow> session \<times> store" where
  "run evs w = fold react_step evs w"

text \<open>
  Every attached listener is among those that the pending cleanup disposes, and the handles
  in use are below the next one to be given out.
\<close>

definition owned :: "session \<Rightarrow> bool" where
  "owned s \<longleftrightarrow> fst ` set (listeners s) \<subseteq> set (cleanup s) \<and> (\<forall>h \<in> set (cleanup s). h < nextHandle s)"

text \<open>A listener whose query was built from the given user and group.\<close>

fun keyed_by :: "jsstring option \<Rightarrow> jsstring option \<Rightarrow> target \<Rightarrow> bool" where
  "keyed_by uo go (GroupMeta g) \<longleftrightarrow> go = Some g"
| "keyed_by uo go (Roster g) \<longleftrightarrow> go = Some g"
| "keyed_by uo go (Received u g) \<longleftrightarrow> uo = Some u \<and> go = Some g"
| "keyed_by uo go (Sent u g) \<longleftrightarrow> uo = Some u \<and> go = Some g"

text \<open>All attached listeners belong to the current (user, group) pair.\<close>

definition attached_for_current :: "session \<Rightarrow> bool" where
  "attached_for_current s \<longleftrightarrow>
     owned s \<and> (\<forall>l \<in> set (listeners s). keyed_by (userId s) (currentGroupId s) (snd l))"

text \<open>The part of the session that only the group effect and its cleanup change.\<close>

definition wiring :: "session \<Rightarrow> (nat \<times> target) list \<times> nat \<times> nat list" where
  "wiring s = (listeners s, nextHandle s, cleanup s)"

section \<open>Initial state and sample data\<close>

text \<open>
  The initial values of the \<open>useState\<close> calls; \<open>stored\<close> is what
  \<open>localStorage.getItem('lastGroupId')\<close> returns.
\<close>

definition initialSession :: "jsstring option \<Rightarrow> session" where
  "initialSession stored =
     \<lparr>userId = None, isAuthReady = False, userName = [], editingName = [],
      isEditingName = False, currentGroupId = stored, groupName = [], groupMembers = [],
      receivedCompliments = [], sentCompliments = [], complimentMessage = [],
      selectedFriendId = [], notification = None, lastGroupId = stored, raised = [],
      listeners = [], nextHandle = 0, cleanup = []\<rparr>"

definition emptyStore :: store where
  "emptyStore = \<lparr>users = [], groups = [], members = [], compliments = []\<rparr>"

text \<open>Users "a" (named "A") and "b" (named "B"), signed in and outside any group.\<close>

definition alice :: session where
  "alice = (initialSession None)\<lparr>userId := Some [0x61], isAuthReady := True, userName := [0x41]\<rparr>"

definition bob :: session where
  "bob = (initialSession None)\<lparr>userId := Some [0x62], isAuthReady := True, userName := [0x42]\<rparr>"

definition t0 :: fs_timestamp where
  "t0 = \<lparr>seconds = 1700000000, nanoseconds = 0\<rparr>"

text \<open>A store with the group "g" (named "BC") created by "a".\<close>

definition clubStore :: store where
  "clubStore =
     \<lparr>users = [([0x61], [(''name'', [0x41])])],
      groups = [([0x67], \<lparr>g_groupName = [0x42, 0x43], g_creatorId = Some [0x61],
                          g_createdAt = Some t0\<rparr>)],
      members = [(([0x67], [0x61]), \<lparr>m_userName = [0x41], m_joinedAt = Some t0\<rparr>)],
      compliments = []\<rparr>"

text \<open>
  Two compliments from "a" to "b" in group "g", written in the same second, the second one
  half a second after the first.
\<close>

definition bob_inbox :: "(jsstring \<times> compliment) list" where
  "bob_inbox =
     [([0x31], \<lparr>senderId = Some [0x61], receiverId = [0x62], groupId = Some [0x67],
               message = [0x68, 0x69],
               timestamp = Some \<lparr>seconds = 1700000000, nanoseconds = 0\<rparr>\<rparr>),
      ([0x32], \<lparr>senderId = Some [0x61], receiverId = [0x62], groupId = Some [0x67],
               message = [0x79, 0x6F],
               timestamp = Some \<lparr>seconds = 1700000000, nanoseconds = 500000000\<rparr>\<rparr>)]"

text \<open>
  The store \<open>clubStore\<close> after "b" has joined and six compliments have been written:
  four from "a" to "b" in group "g" (two of them with the timestamp still pending), one
  from "b" to "a" in "g", and one from "a" to "b" in another group "h".
\<close>

definition chatStore :: store where
  "chatStore = clubStore\<lparr>
     members := members clubStore @
       [(([0x67], [0x62]), \<lparr>m_userName = [0x42], m_joinedAt = Some t0\<rparr>)],
     compliments :=
       [([0x31], \<lparr>senderId = Some [0x61], receiverId = [0x62], groupId = Some [0x67],
                 message = [0x68, 0x69],
                 timestamp = Some \<lparr>seconds = 1700000300, nanoseconds = 0\<rparr>\<rparr>),
        ([0x32], \<lparr>senderId = Some [0x62], receiverId = [0x61], groupId = Some [0x67],
                 message = [0x79, 0x6F],
                 timestamp = Some \<lparr>seconds = 1700000400, nanoseconds = 0\<rparr>\<rparr>),
        ([0x33], \<lparr>senderId = Some [0x61], receiverId = [0x62], groupId = Some [0x68],
                 message = [0x6F, 0x6B],
                 timestamp = Some \<lparr>seconds = 1700000500, nanoseconds = 0\<rparr>\<rparr>),
        ([0x34], \<lparr>senderId = Some [0x61], receiverId = [0x62], groupId = Some [0x67],
                 message = [0x68, 0x6F], timestamp = None\<rparr>),
        ([0x35], \<lparr>senderId = Some [0x61], receiverId = [0x62], groupId = Some [0x67],
                 message = [0x68, 0x61],
                 timestamp = Some \<lparr>seconds = 1700000600, nanoseconds = 0\<rparr>\<rparr>),
        ([0x36], \<lparr>senderId = Some [0x61], receiverId = [0x62], groupId = Some [0x67],
                 message = [0x68, 0x65], timestamp = None\<rparr>)]\<rparr>"

text \<open>
  "a" inside group "g" with the four listeners attached, and the same session with "b"
  selected and the message " hi " typed.
\<close>

definition aliceInGroup :: session where
  "aliceInGroup =
     groupEffect (alice\<lparr>currentGroupId := Some [0x67], lastGroupId := Some [0x67]\<rparr>)"

definition aliceWriting :: session where
  "aliceWriting =
     aliceInGroup\<lparr>selectedFriendId := [0x62], complimentMessage := [0x20, 0x68, 0x69, 0x20]\<rparr>"

section \<open>Properties named by the specification\<close>

text \<open>Invariant I1: every group document has at least one member document.\<close>

definition roster_nonempty :: "store \<Rightarrow> bool" where
  "roster_nonempty db = (\<forall>g \<in> fst ` set (groups db). membersQuery g db \<noteq> [])"

text \<open>
  A document id is one path segment: not empty and without \<open>/\<close>. The ids of the group
  documents of a store are of this kind.
\<close>

definition is_segment :: "jsstring \<Rightarrow> bool" where
  "is_segment i \<longleftrightarrow> i \<noteq> [] \<and> 0x2F \<notin> set i"

definition segment_ids :: "store \<Rightarrow> bool" where
  "segment_ids db = (\<forall>k \<in> fst ` set (groups db). is_segment k)"

text \<open>Document ids are unique within each collection.\<close>

definition wf_store :: "store \<Rightarrow> bool" where
  "wf_store db \<longleftrightarrow>
     distinct (map fst (users db)) \<and> distinct (map fst (groups db)) \<and>
     distinct (map fst (members db)) \<and> distinct (map fst (compliments db))"

text \<open>
  The order of two timestamps as points in time, a missing timestamp counting as time 0,
  and a list that has the most recent timestamp first.
\<close>

definition ts_value :: "fs_timestamp option \<Rightarrow> int \<times> int" where
  "ts_value t = (case t of None \<Rightarrow> (0, 0) | Some x \<Rightarrow> (seconds x, nanoseconds x))"

definition at_least_as_recent :: "fs_timestamp option \<Rightarrow> fs_timestamp option \<Rightarrow> bool" where
  "at_least_as_recent a b \<longleftrightarrow>
     fst (ts_value b) < fst (ts_value a) \<or>
     (fst (ts_value b) = fst (ts_value a) \<and> snd (ts_value b) \<le> snd (ts_value a))"

definition most_recent_first :: "(jsstring \<times> compliment) list \<Rightarrow> bool" where
  "most_recent_first v =
     sorted_wrt (\<lambda>a b. at_least_as_recent (timestamp (snd a)) (timestamp (snd b))) v"

text \<open>A list in descending order of the comparator's key \<open>timestamp?.seconds || 0\<close>.\<close>

definition desc_seconds :: "(jsstring \<times> compliment) list \<Rightarrow> bool" where
  "desc_seconds xs = sorted_wrt (\<lambda>a b. seconds_or_0 b \<le> seconds_or_0 a) xs"

section \<open>Auxiliary facts\<close>

subsection \<open>Collections\<close>

lemma setDoc_fresh: "k \<notin> fst ` set col \<Longrightarrow> setDoc k v col = col @ [(k, v)]"
  unfolding setDoc_def by (induction col) auto

lemma getDoc_setDoc: "getDoc k' (setDoc k v col) = (if k' = k then Some v else getDoc k' col)"
  by (simp add: getDoc_def setDoc_def update_conv')

lemma distinct_setDoc: "distinct (map fst col) \<Longrightarrow> distinct (map fst (setDoc k v col))"
  by (simp add: setDoc_def distinct_update)

lemma keys_setDoc: "fst ` set (setDoc k v col) = insert k (fst ` set col)"
  by (simp add: setDoc_def dom_update)

lemma count_key_setDoc:
  "distinct (map fst col) \<Longrightarrow> length (filter (\<lambda>d. fst d = k) (setDoc k v col)) = 1"
  unfolding setDoc_def
proof (induction col)
  case Nil
  then show ?case by simp
next
  case (Cons d col)
  then show ?case
    by (cases d) (auto simp: filter_empty_conv image_iff)
qed

lemma keys_setDoc_present:
  "k \<in> fst ` set col \<Longrightarrow> map fst (setDoc k v col) = map fst col"
  unfolding setDoc_def by (induction col) auto

lemma membersQuery_nonempty_iff:
  "membersQuery g db \<noteq> [] \<longleftrightarrow> (\<exists>u. (g, u) \<in> fst ` set (members db))"
proof
  assume "membersQuery g db \<noteq> []"
  then obtain k d where "(k, d) \<in> set (members db)" "fst k = g"
    by (auto simp: membersQuery_def filter_empty_conv)
  then have "(g, snd k) \<in> fst ` set (members db)"
    by force
  then show "\<exists>u. (g, u) \<in> fst ` set (members db)" ..
next
  assume "\<exists>u. (g, u) \<in> fst ` set (members db)"
  then obtain u d where "((g, u), d) \<in> set (members db)"
    by auto
  then have "\<exists>x \<in> set (members db). (\<lambda>((g', u), d). g' = g) x"
    by (intro bexI[of _ "((g, u), d)"]) simp_all
  then show "membersQuery g db \<noteq> []"
    by (simp add: membersQuery_def filter_empty_conv)
qed

text \<open>The empty store has unique ids, and every handler keeps them unique.\<close>

lemma wf_emptyStore: "wf_store emptyStore"
  by (simp add: wf_store_def emptyStore_def)

lemma wf_handleSaveName: "wf_store db \<Longrightarrow> wf_store (snd (handleSaveName write_ok s db))"
  by (simp add: wf_store_def handleSaveName_def distinct_setDoc split: option.splits)

lemma wf_handleCreateGroup:
  "wf_store db \<Longrightarrow> wf_store (snd (handleCreateGroup new_id commit_ok now name s db))"
  by (simp add: wf_store_def handleCreateGroup_def commit_def distinct_setDoc
        split: option.splits)

lemma wf_handleJoinGroup:
  "wf_store db \<Longrightarrow> wf_store (snd (handleJoinGroup read_ok write_ok now gid s db))"
  by (simp add: wf_store_def handleJoinGroup_def distinct_setDoc split: option.splits)

lemma wf_handleSendCompliment:
  "wf_store db \<Longrightarrow> wf_store (snd (handleSendCompliment new_id write_ok now s db))"
  by (simp add: wf_store_def handleSendCompliment_def distinct_setDoc)

text \<open>
  Group ids stay single segments: only \<open>handleCreateGroup\<close> adds a group document, under
  the generated id.
\<close>

lemma ball_keys_setDoc:
  "(\<forall>x \<in> set (setDoc k v col). P (fst x)) \<longleftrightarrow> P k \<and> (\<forall>x \<in> set col. P (fst x))"
proof -
  have "(\<forall>x \<in> set (setDoc k v col). P (fst x)) \<longleftrightarrow> (\<forall>i \<in> fst ` set (setDoc k v col). P i)"
    by blast
  also have "\<dots> \<longleftrightarrow> (\<forall>i \<in> insert k (fst ` set col). P i)"
    by (simp only: keys_setDoc)
  also have "\<dots> \<longleftrightarrow> P k \<and> (\<forall>x \<in> set col. P (fst x))"
    by blast
  finally show ?thesis .
qed

lemma segment_ids_emptyStore: "segment_ids emptyStore"
  by (simp add: segment_ids_def emptyStore_def)

lemma segment_ids_handleCreateGroup:
  "is_segment new_id \<Longrightarrow> segment_ids db \<Longrightarrow>
     segment_ids (snd (handleCreateGroup new_id commit_ok now name s db))"
  by (simp add: segment_ids_def handleCreateGroup_def commit_def ball_keys_setDoc Let_def
        split: option.splits)

lemma segment_ids_other_handlers:
  "segment_ids (snd (handleSaveName write_ok s db)) = segment_ids db"
  "segment_ids (snd (handleJoinGroup read_ok write_ok now gid s db)) = segment_ids db"
  "segment_ids (snd (handleSendCompliment new_id write_ok now s db)) = segment_ids db"
  by (simp_all add: segment_ids_def handleSaveName_def handleJoinGroup_def
        handleSendCompliment_def split: option.splits)

subsection \<open>Document references\<close>

lemma split_slash_segment: "0x2F \<notin> set i \<Longrightarrow> split_slash i = [i]"
  by (induction i) auto

lemma double_slash_segment: "0x2F \<notin> set i \<Longrightarrow> \<not> double_slash i"
  by (induction i rule: double_slash.induct) auto

lemma groupDoc_segment: "is_segment i \<Longrightarrow> groupDoc i = Some (GroupRef i)"
  by (simp add: is_segment_def groupDoc_def split_slash_segment double_slash_segment)

text \<open>
  Ids with a slash, typed by "b" over \<open>chatStore\<close>: "g/" is group "g"; "x/y" makes
  \<open>doc\<close> throw; "g/members/a" is the member document of "a" in "g", which exists, so the
  join goes through and writes the member document of "b" in a group "a".
\<close>

lemma groupDoc_slashed:
  "groupDoc [0x67, 0x2F] = Some (GroupRef [0x67])"
  "groupDoc [0x78, 0x2F, 0x79] = None"
  "groupDoc [0x67, 0x2F, 0x6D, 0x65, 0x6D, 0x62, 0x65, 0x72, 0x73, 0x2F, 0x61] =
     Some (MemberRef [0x67] [0x61])"
  by (simp_all add: groupDoc_def members_name_def)

lemma join_member_path:
  "notification (fst (handleJoinGroup True True t0
       [0x67, 0x2F, 0x6D, 0x65, 0x6D, 0x62, 0x65, 0x72, 0x73, 0x2F, 0x61] bob chatStore)) =
     Some (JoinedGroup undefined_text, success)"
  "currentGroupId (fst (handleJoinGroup True True t0
       [0x67, 0x2F, 0x6D, 0x65, 0x6D, 0x62, 0x65, 0x72, 0x73, 0x2F, 0x61] bob chatStore)) =
     Some [0x61]"
  "getDoc ([0x61], [0x62]) (members (snd (handleJoinGroup True True t0
       [0x67, 0x2F, 0x6D, 0x65, 0x6D, 0x62, 0x65, 0x72, 0x73, 0x2F, 0x61] bob chatStore))) =
     Some \<lparr>m_userName = [0x42], m_joinedAt = Some t0\<rparr>"
  "notification (fst (handleJoinGroup True True t0 [0x78, 0x2F, 0x79] bob chatStore)) =
     Some (CouldNotJoinGroup, error)"
  "currentGroupId (fst (handleJoinGroup True True t0 [0x67, 0x2F] bob chatStore)) = Some [0x67]"
  by (simp_all add: handleJoinGroup_def groupDoc_slashed showNotification_def trim_def
        isWhiteSpace_def bob_def initialSession_def chatStore_def clubStore_def getDoc_def
        setDoc_def)

subsection \<open>The comparator sort\<close>

lemma mset_insort_cmp: "mset (insort_cmp cmp x xs) = add_mset x (mset xs)"
  by (induction xs) auto

lemma mset_array_sort: "mset (array_sort cmp xs) = mset xs"
  unfolding array_sort_def by (induction xs) (auto simp: mset_insort_cmp)

lemma set_array_sort: "set (array_sort cmp xs) = set xs"
  by (metis mset_array_sort set_mset_mset)

lemma set_insort_cmp: "set (insort_cmp cmp x xs) = insert x (set xs)"
  by (metis mset_insort_cmp set_mset_mset set_mset_add_mset_insert)

lemma desc_insort:
  "desc_seconds xs \<Longrightarrow> desc_seconds (insort_cmp by_timestamp x xs)"
  unfolding desc_seconds_def
  by (induction xs) (auto simp: by_timestamp_def set_insort_cmp)

lemma desc_array_sort: "desc_seconds (array_sort by_timestamp xs)"
  unfolding array_sort_def
  by (induction xs) (auto simp: desc_insort, simp add: desc_seconds_def)

lemma stable_insort:
  "filter (\<lambda>c. seconds_or_0 c = k) (insort_cmp by_timestamp x xs) =
     (if seconds_or_0 x = k then x # filter (\<lambda>c. seconds_or_0 c = k) xs
      else filter (\<lambda>c. seconds_or_0 c = k) xs)"
  by (induction xs) (auto simp: by_timestamp_def)

lemma stable_array_sort:
  "filter (\<lambda>c. seconds_or_0 c = k) (array_sort by_timestamp xs) = filter (\<lambda>c. seconds_or_0 c = k) xs"
  unfolding array_sort_def by (induction xs) (auto simp: stable_insort)

lemma missing_sorts_last:
  assumes "sorted_wrt (\<lambda>a b. seconds_or_0 b \<le> seconds_or_0 a) v"
    and "i < j" and "j < length v" and "timestamp (snd (v ! i)) = None"
  shows "seconds_or_0 (v ! j) \<le> 0"
proof -
  have "seconds_or_0 (v ! j) \<le> seconds_or_0 (v ! i)"
    using assms(1-3) by (simp add: sorted_wrt_iff_nth_less)
  then show ?thesis
    using assms(4) by (simp add: seconds_or_0_def)
qed

subsection \<open>Listeners\<close>

lemma listeners_fold_unsubscribe:
  "listeners (fold unsubscribe hs s) = filter (\<lambda>l. fst l \<notin> set hs) (listeners s)"
  by (induction hs arbitrary: s) (auto simp: unsubscribe_def intro: filter_cong)

lemma fold_unsubscribe_other:
  "userId (fold unsubscribe hs s) = userId s"
  "currentGroupId (fold unsubscribe hs s) = currentGroupId s"
  "isAuthReady (fold unsubscribe hs s) = isAuthReady s"
  "nextHandle (fold unsubscribe hs s) = nextHandle s"
  by (induction hs arbitrary: s) (auto simp: unsubscribe_def)

lemma runCleanup_listeners: "owned s \<Longrightarrow> listeners (runCleanup s) = []"
  by (auto simp: runCleanup_def listeners_fold_unsubscribe owned_def filter_empty_conv)

lemma runCleanup_fields:
  "userId (runCleanup s) = userId s"
  "currentGroupId (runCleanup s) = currentGroupId s"
  "isAuthReady (runCleanup s) = isAuthReady s"
  "nextHandle (runCleanup s) = nextHandle s"
  "cleanup (runCleanup s) = []"
  by (simp_all add: runCleanup_def fold_unsubscribe_other)

lemma rerun_fields:
  "userId (rerunGroupEffect s) = userId s"
  "currentGroupId (rerunGroupEffect s) = currentGroupId s"
  "isAuthReady (rerunGroupEffect s) = isAuthReady s"
  by (simp_all add: rerunGroupEffect_def groupEffect_def resetViews_def runCleanup_fields
        split: option.splits)

lemma rerun_listeners:
  "owned s \<Longrightarrow> listeners (rerunGroupEffect s) =
     (case (userId s, currentGroupId s) of
        (Some u, Some g) \<Rightarrow>
          if isAuthReady s \<and> u \<noteq> [] \<and> g \<noteq> []
          then [(nextHandle s, GroupMeta g), (nextHandle s + 1, Roster g),
                (nextHandle s + 2, Received u g), (nextHandle s + 3, Sent u g)]
          else []
      | _ \<Rightarrow> [])"
  by (simp add: rerunGroupEffect_def groupEffect_def resetViews_def runCleanup_fields
        runCleanup_listeners truthy_def split: option.splits)

lemma rerun_attached: "owned s \<Longrightarrow> attached_for_current (rerunGroupEffect s)"
  unfolding attached_for_current_def
proof
  assume o: "owned s"
  show "owned (rerunGroupEffect s)"
    using runCleanup_listeners [OF o]
    by (auto simp: owned_def rerunGroupEffect_def groupEffect_def resetViews_def
          runCleanup_fields split: option.splits)
  show "\<forall>l\<in>set (listeners (rerunGroupEffect s)).
       keyed_by (userId (rerunGroupEffect s)) (currentGroupId (rerunGroupEffect s)) (snd l)"
    by (auto simp: rerun_listeners [OF o] rerun_fields split: option.splits if_splits)
qed

lemma wiring_callbacks:
  "wiring (showNotification n ty s) = wiring s"
  "wiring (handleLeaveGroup s) = wiring s"
  "wiring (onProfileSnapshot pd s) = wiring s"
  "wiring (onGroupSnapshot gd s) = wiring s"
  "wiring (onMembersSnapshot ms s) = wiring s"
  "wiring (onReceivedSnapshot cs s) = wiring s"
  "wiring (onSentSnapshot cs s) = wiring s"
  by (simp_all add: wiring_def showNotification_def handleLeaveGroup_def onProfileSnapshot_def
        onGroupSnapshot_def onMembersSnapshot_def onReceivedSnapshot_def onSentSnapshot_def
        split: option.splits)

lemma wiring_deliver: "wiring (deliver h db s) = wiring s"
  by (simp add: deliver_def wiring_callbacks split: option.splits target.splits)

lemma wiring_handlers:
  "wiring (fst (handleSaveName w_ok s db)) = wiring s"
  "wiring (fst (handleCreateGroup new_id c_ok now name s db)) = wiring s"
  "wiring (fst (handleJoinGroup r_ok w_ok now gid s db)) = wiring s"
  "wiring (fst (handleSendCompliment new_id w_ok now s db)) = wiring s"
  by (simp_all add: wiring_def handleSaveName_def handleCreateGroup_def handleJoinGroup_def
        handleSendCompliment_def showNotification_def commit_def split: option.splits)

lemma wiring_handle: "wiring (fst (handle ev (s, db))) = wiring s"
  by (cases ev)
    (simp_all add: wiring_handlers wiring_callbacks wiring_deliver split: option.splits,
     simp_all add: wiring_def)

lemma owned_wiring: "wiring s' = wiring s \<Longrightarrow> owned s' = owned s"
  by (simp add: wiring_def owned_def)

lemma attached_unchanged:
  "wiring s' = wiring s \<Longrightarrow> deps s' = deps s \<Longrightarrow> attached_for_current s' = attached_for_current s"
  by (simp add: wiring_def deps_def attached_for_current_def owned_def)

lemma react_step_attached:
  assumes "attached_for_current (fst w)"
  shows "attached_for_current (fst (react_step ev w))"
proof (cases "deps (fst (handle ev w)) = deps (fst w)")
  case True
  then show ?thesis
    using assms attached_unchanged [of "fst (handle ev w)" "fst w"] wiring_handle [of ev "fst w" "snd w"]
    by (simp add: react_step_def Let_def)
next
  case False
  have "owned (fst (handle ev w))"
    using assms owned_wiring [of "fst (handle ev w)" "fst w"] wiring_handle [of ev "fst w" "snd w"]
    by (simp add: attached_for_current_def)
  then show ?thesis
    using False by (simp add: react_step_def Let_def rerun_attached)
qed

lemma run_attached:
  "attached_for_current (fst w) \<Longrightarrow> attached_for_current (fst (run evs w))"
  unfolding run_def
  by (induction evs arbitrary: w) (simp_all add: react_step_attached)

lemma disposed_not_attached:
  assumes "owned s" and "h \<in> set (cleanup s)"
  shows "map_of (listeners (rerunGroupEffect s)) h = None"
proof -
  have "h < nextHandle s"
    using assms by (simp add: owned_def)
  then show ?thesis
    by (simp add: rerun_listeners [OF assms(1)] split: option.splits)
qed

text \<open>
  The invariant holds when the component has mounted (the effect has run once on the
  initial state) and therefore in every state the session can reach.
\<close>

lemma mount_attached: "attached_for_current (groupEffect (initialSession stored))"
  by (simp add: attached_for_current_def owned_def groupEffect_def resetViews_def
        initialSession_def)

lemma reachable_attached:
  "attached_for_current (fst (run evs (groupEffect (initialSession stored), db)))"
  using run_attached [of "(groupEffect (initialSession stored), db)" evs] mount_attached
  by simp

lemma reachable_owned: "owned (fst (run evs (groupEffect (initialSession stored), db)))"
  using reachable_attached [of evs stored db] by (simp add: attached_for_current_def)

section \<open>Group creation (C1)\<close>

text \<open>
  C1. \<open>handleCreateGroup\<close> puts the group document and the creator's member document
  into one write batch. When the call succeeds (it raises the "created" notice) the store
  holds both documents and the roster of the new group has at least one entry; in every
  other case, in particular when the commit is rejected, the store is unchanged, so neither
  document is there. A store in which every group has a member keeps that property.
\<close>

theorem create_group_atomic:
  "(notification (fst (handleCreateGroup new_id commit_ok now name s db))
       = Some (GroupCreated name, success) \<longrightarrow>
      (\<exists>u. userId s = Some u \<and>
         getDoc new_id (groups (snd (handleCreateGroup new_id commit_ok now name s db))) =
           Some \<lparr>g_groupName = trim name, g_creatorId = Some u, g_createdAt = Some now\<rparr> \<and>
         getDoc (new_id, u) (members (snd (handleCreateGroup new_id commit_ok now name s db))) =
           Some \<lparr>m_userName = userName s, m_joinedAt = Some now\<rparr>) \<and>
      1 \<le> length (membersQuery new_id (snd (handleCreateGroup new_id commit_ok now name s db))))
   \<and> (notification (fst (handleCreateGroup new_id commit_ok now name s db))
       \<noteq> Some (GroupCreated name, success) \<longrightarrow>
      snd (handleCreateGroup new_id commit_ok now name s db) = db)
   \<and> (\<not> commit_ok \<longrightarrow> snd (handleCreateGroup new_id commit_ok now name s db) = db)
   \<and> (roster_nonempty db \<longrightarrow>
        roster_nonempty (snd (handleCreateGroup new_id commit_ok now name s db)))"
proof -
  let ?r = "handleCreateGroup new_id commit_ok now name s db"
  have a: "notification (fst ?r) = Some (GroupCreated name, success) \<Longrightarrow>
      (\<exists>u. userId s = Some u \<and>
         getDoc new_id (groups (snd ?r)) =
           Some \<lparr>g_groupName = trim name, g_creatorId = Some u, g_createdAt = Some now\<rparr> \<and>
         getDoc (new_id, u) (members (snd ?r)) =
           Some \<lparr>m_userName = userName s, m_joinedAt = Some now\<rparr>) \<and>
      1 \<le> length (membersQuery new_id (snd ?r))"
    by (auto simp: handleCreateGroup_def showNotification_def commit_def getDoc_setDoc
          Suc_le_eq membersQuery_nonempty_iff keys_setDoc split: option.splits if_splits)
  have b: "notification (fst ?r) \<noteq> Some (GroupCreated name, success) \<Longrightarrow> snd ?r = db"
    by (auto simp: handleCreateGroup_def showNotification_def commit_def
          split: option.splits if_splits)
  have c: "\<not> commit_ok \<Longrightarrow> snd ?r = db"
    by (auto simp: handleCreateGroup_def showNotification_def commit_def
          split: option.splits if_splits)
  have d: "roster_nonempty db \<Longrightarrow> roster_nonempty (snd ?r)"
  proof (cases "snd ?r = db")
    case True
    then show "roster_nonempty db \<Longrightarrow> roster_nonempty (snd ?r)" by simp
  next
    case False
    then obtain u where r: "snd ?r = (db\<lparr>groups := setDoc new_id
        \<lparr>g_groupName = trim name, g_creatorId = userId s, g_createdAt = Some now\<rparr> (groups db)\<rparr>)
        \<lparr>members := setDoc (new_id, u) \<lparr>m_userName = userName s, m_joinedAt = Some now\<rparr>
           (members db)\<rparr>"
      by (auto simp: handleCreateGroup_def showNotification_def commit_def
          split: option.splits if_splits)
    assume inv: "roster_nonempty db"
    show "roster_nonempty (snd ?r)"
      unfolding roster_nonempty_def
    proof
      fix g assume "g \<in> fst ` set (groups (snd ?r))"
      then have "g = new_id \<or> g \<in> fst ` set (groups db)"
        by (simp add: r keys_setDoc)
      then show "membersQuery g (snd ?r) \<noteq> []"
      proof
        assume "g = new_id"
        then show ?thesis
          by (auto simp: r membersQuery_nonempty_iff keys_setDoc)
      next
        assume "g \<in> fst ` set (groups db)"
        with inv obtain u' where "(g, u') \<in> fst ` set (members db)"
          unfolding roster_nonempty_def membersQuery_nonempty_iff by blast
        then show ?thesis
          unfolding membersQuery_nonempty_iff by (auto simp: r keys_setDoc)
      qed
    qed
  qed
  from a b c d show ?thesis by blast
qed

text \<open>
  "a" creates the group "BC" in an empty store: with a commit that resolves both documents
  are there, with a commit that rejects the store stays empty.
\<close>

theorem create_group_atomic_witness:
  "notification (fst (handleCreateGroup [0x67] True t0 [0x42, 0x43] alice emptyStore))
     = Some (GroupCreated [0x42, 0x43], success)
   \<and> 1 \<le> length (membersQuery [0x67]
         (snd (handleCreateGroup [0x67] True t0 [0x42, 0x43] alice emptyStore)))
   \<and> notification (fst (handleCreateGroup [0x67] False t0 [0x42, 0x43] alice emptyStore))
     \<noteq> Some (GroupCreated [0x42, 0x43], success)
   \<and> snd (handleCreateGroup [0x67] False t0 [0x42, 0x43] alice emptyStore) = emptyStore
   \<and> roster_nonempty emptyStore
   \<and> roster_nonempty (snd (handleCreateGroup [0x67] True t0 [0x42, 0x43] alice emptyStore))"
  using create_group_atomic [of "[0x67]" True t0 "[0x42, 0x43]" alice emptyStore]
    create_group_atomic [of "[0x67]" False t0 "[0x42, 0x43]" alice emptyStore]
  by (simp add: handleCreateGroup_def showNotification_def commit_def alice_def
        initialSession_def emptyStore_def trim_def isWhiteSpace_def roster_nonempty_def)

section \<open>The received and sent views (C2, C3)\<close>

text \<open>
  C2. After a push, the received view of user \<open>u\<close> in group \<open>g\<close> holds exactly the
  compliments of the store with that receiver and group, the sent view exactly those with
  that sender and group. When no compliment has its sender as receiver, the two views are
  disjoint, and their union is the set of compliments of the group in which \<open>u\<close> is sender
  or receiver.
\<close>

theorem views_complete:
  "set (receivedCompliments (onReceivedSnapshot (receivedQuery u g db) s)) =
     {d \<in> set (compliments db). receiverId (snd d) = u \<and> groupId (snd d) = Some g}
   \<and> set (sentCompliments (onSentSnapshot (sentQuery u g db) s')) =
     {d \<in> set (compliments db). senderId (snd d) = Some u \<and> groupId (snd d) = Some g}
   \<and> ((\<forall>d \<in> set (compliments db). senderId (snd d) \<noteq> Some (receiverId (snd d))) \<longrightarrow>
        set (receivedCompliments (onReceivedSnapshot (receivedQuery u g db) s)) \<inter>
        set (sentCompliments (onSentSnapshot (sentQuery u g db) s')) = {}
        \<and> set (receivedCompliments (onReceivedSnapshot (receivedQuery u g db) s)) \<union>
          set (sentCompliments (onSentSnapshot (sentQuery u g db) s')) =
          {d \<in> set (compliments db).
             groupId (snd d) = Some g \<and> (senderId (snd d) = Some u \<or> receiverId (snd d) = u)})"
  by (auto simp: onReceivedSnapshot_def onSentSnapshot_def receivedQuery_def sentQuery_def
        set_array_sort)

text \<open>The views of "b" in group "g" over \<open>chatStore\<close>.\<close>

theorem views_complete_witness:
  "list_all (\<lambda>d. senderId (snd d) \<noteq> Some (receiverId (snd d))) (compliments chatStore)
   \<and> set (receivedCompliments (onReceivedSnapshot (receivedQuery [0x62] [0x67] chatStore) bob)) \<inter>
     set (sentCompliments (onSentSnapshot (sentQuery [0x62] [0x67] chatStore) bob)) = {}
   \<and> map fst (receivedCompliments (onReceivedSnapshot (receivedQuery [0x62] [0x67] chatStore) bob))
       = [[0x35], [0x31], [0x34], [0x36]]
   \<and> map fst (sentCompliments (onSentSnapshot (sentQuery [0x62] [0x67] chatStore) bob)) = [[0x32]]"
proof -
  have h: "\<forall>d \<in> set (compliments chatStore). senderId (snd d) \<noteq> Some (receiverId (snd d))"
    by (simp add: chatStore_def clubStore_def)
  have r: "map fst (receivedCompliments
        (onReceivedSnapshot (receivedQuery [0x62] [0x67] chatStore) bob))
       = [[0x35], [0x31], [0x34], [0x36]]"
    by (simp add: onReceivedSnapshot_def receivedQuery_def chatStore_def clubStore_def
          array_sort_def by_timestamp_def seconds_or_0_def)
  have s: "map fst (sentCompliments (onSentSnapshot (sentQuery [0x62] [0x67] chatStore) bob))
       = [[0x32]]"
    by (simp add: onSentSnapshot_def sentQuery_def chatStore_def clubStore_def
          array_sort_def by_timestamp_def seconds_or_0_def)
  have "set (receivedCompliments (onReceivedSnapshot (receivedQuery [0x62] [0x67] chatStore) bob)) \<inter>
     set (sentCompliments (onSentSnapshot (sentQuery [0x62] [0x67] chatStore) bob)) = {}
     \<and> set (receivedCompliments (onReceivedSnapshot (receivedQuery [0x62] [0x67] chatStore) bob)) \<union>
     set (sentCompliments (onSentSnapshot (sentQuery [0x62] [0x67] chatStore) bob)) =
     {d \<in> set (compliments chatStore).
        groupId (snd d) = Some [0x67] \<and> (senderId (snd d) = Some [0x62] \<or> receiverId (snd d) = [0x62])}"
    using views_complete [of "[0x62]" "[0x67]" chatStore bob bob, THEN conjunct2, THEN conjunct2] h
    by (rule mp)
  then have i: "set (receivedCompliments (onReceivedSnapshot (receivedQuery [0x62] [0x67] chatStore) bob)) \<inter>
     set (sentCompliments (onSentSnapshot (sentQuery [0x62] [0x67] chatStore) bob)) = {}"
    by (rule conjunct1)
  have a: "list_all (\<lambda>d. senderId (snd d) \<noteq> Some (receiverId (snd d))) (compliments chatStore)"
    using h by (simp only: list_all_iff)
  show ?thesis
    by (intro conjI) (fact a, fact i, fact r, fact s)
qed

text \<open>
  C3, as stated: on every push the views have the most recent timestamp first, a missing
  timestamp counting as 0. This fails for two compliments written within the same second:
  the comparator reads only \<open>seconds\<close>, so it calls them equal and the sort keeps the
  order of the snapshot, here the earlier one first.
\<close>

theorem views_most_recent_first_counterexample:
  "\<not> most_recent_first (receivedCompliments (onReceivedSnapshot bob_inbox bob))"
  by (simp add: most_recent_first_def onReceivedSnapshot_def bob_inbox_def array_sort_def
        by_timestamp_def seconds_or_0_def at_least_as_recent_def ts_value_def)

text \<open>
  C3, amended: on every push each view is the snapshot's documents in descending order of
  the whole seconds of the timestamp, where a missing timestamp counts as 0 seconds (so no
  record with a positive seconds value follows a record without timestamp), and records
  with equal seconds keep the relative order they have in the snapshot.
\<close>

theorem views_sorted_by_seconds:
  assumes "v = receivedCompliments (onReceivedSnapshot docs s)
         \<or> v = sentCompliments (onSentSnapshot docs s)"
  shows "desc_seconds v
     \<and> mset v = mset docs
     \<and> (\<forall>k. filter (\<lambda>c. seconds_or_0 c = k) v = filter (\<lambda>c. seconds_or_0 c = k) docs)
     \<and> (\<forall>i j. i < j \<and> j < length v \<and> timestamp (snd (v ! i)) = None
           \<longrightarrow> seconds_or_0 (v ! j) \<le> 0)"
proof -
  have v: "v = array_sort by_timestamp docs"
    using assms by (auto simp: onReceivedSnapshot_def onSentSnapshot_def)
  have d: "desc_seconds v"
    unfolding v by (rule desc_array_sort)
  then have l: "\<forall>i j. i < j \<and> j < length v \<and> timestamp (snd (v ! i)) = None
           \<longrightarrow> seconds_or_0 (v ! j) \<le> 0"
    unfolding desc_seconds_def by (blast intro: missing_sorts_last)
  have m: "mset v = mset docs"
    by (simp add: v mset_array_sort)
  have k: "\<forall>k. filter (\<lambda>c. seconds_or_0 c = k) v = filter (\<lambda>c. seconds_or_0 c = k) docs"
    by (simp add: v stable_array_sort)
  show ?thesis
    by (intro conjI) (fact d, fact m, fact k, fact l)
qed

text \<open>
  The received view of "b" in "g" over \<open>chatStore\<close>: the two dated compliments, newest
  first, then the two pending ones in snapshot order.
\<close>

theorem views_sorted_by_seconds_witness:
  "map fst (receivedCompliments (onReceivedSnapshot (receivedQuery [0x62] [0x67] chatStore) bob))
       = [[0x35], [0x31], [0x34], [0x36]]
   \<and> desc_seconds (receivedCompliments
        (onReceivedSnapshot (receivedQuery [0x62] [0x67] chatStore) bob))
   \<and> timestamp (snd (receivedCompliments
        (onReceivedSnapshot (receivedQuery [0x62] [0x67] chatStore) bob) ! 2)) = None
   \<and> seconds_or_0 (receivedCompliments
        (onReceivedSnapshot (receivedQuery [0x62] [0x67] chatStore) bob) ! 3) \<le> 0"
proof -
  let ?v = "receivedCompliments (onReceivedSnapshot (receivedQuery [0x62] [0x67] chatStore) bob)"
  have v: "?v =
     [([0x35], \<lparr>senderId = Some [0x61], receiverId = [0x62], groupId = Some [0x67],
         message = [0x68, 0x61],
         timestamp = Some \<lparr>seconds = 1700000600, nanoseconds = 0\<rparr>\<rparr>),
      ([0x31], \<lparr>senderId = Some [0x61], receiverId = [0x62], groupId = Some [0x67],
         message = [0x68, 0x69],
         timestamp = Some \<lparr>seconds = 1700000300, nanoseconds = 0\<rparr>\<rparr>),
      ([0x34], \<lparr>senderId = Some [0x61], receiverId = [0x62], groupId = Some [0x67],
         message = [0x68, 0x6F], timestamp = None\<rparr>),
      ([0x36], \<lparr>senderId = Some [0x61], receiverId = [0x62], groupId = Some [0x67],
         message = [0x68, 0x65], timestamp = None\<rparr>)]"
    by (simp add: onReceivedSnapshot_def receivedQuery_def chatStore_def clubStore_def
          array_sort_def by_timestamp_def seconds_or_0_def)
  have m: "map fst ?v = [[0x35], [0x31], [0x34], [0x36]]"
    by (simp add: v)
  have h: "(2::nat) < 3 \<and> 3 < length ?v \<and> timestamp (snd (?v ! 2)) = None"
    by (simp add: v)
  note t = views_sorted_by_seconds [of ?v "receivedQuery [0x62] [0x67] chatStore" bob,
      OF disjI1, OF refl]
  have d: "desc_seconds ?v"
    using t by (rule conjunct1)
  have "\<forall>i j. i < j \<and> j < length ?v \<and> timestamp (snd (?v ! i)) = None
           \<longrightarrow> seconds_or_0 (?v ! j) \<le> 0"
    using t by (elim conjE)
  then have "(2::nat) < 3 \<and> 3 < length ?v \<and> timestamp (snd (?v ! 2)) = None
           \<longrightarrow> seconds_or_0 (?v ! 3) \<le> 0"
    by (elim allE)
  then have x: "seconds_or_0 (?v ! 3) \<le> 0"
    using h by (rule mp)
  have n: "timestamp (snd (?v ! 2)) = None"
    using h by (elim conjE)
  show ?thesis
    by (intro conjI) (fact m, fact d, fact n, fact x)
qed

section \<open>Joining a group (C4, C5)\<close>

text \<open>
  C4, as stated: for every group id that does not resolve to a group document, joining
  fails with the not-found notice. An id that trims to empty does not resolve, and
  \<open>handleJoinGroup\<close> rejects it at its first guard with 'Please enter a Group ID.'
\<close>

theorem join_missing_group_counterexample:
  "getDoc (trim [0x20]) (groups clubStore) = None
   \<and> notification (fst (handleJoinGroup True True t0 [0x20] bob clubStore))
       = Some (PleaseEnterGroupId, error)
   \<and> notification (fst (handleJoinGroup True True t0 [0x20] bob clubStore))
       \<noteq> Some (NoGroupFound, error)"
  by (simp add: handleJoinGroup_def showNotification_def getDoc_def clubStore_def
        trim_def isWhiteSpace_def)

text \<open>
  C4, amended: for every group id without \<open>/\<close> whose trimmed value does not resolve to
  a group document, joining fails with one error notice and writes nothing: the store is
  unchanged (no member document is created) and the current group and the remembered group
  id are unchanged. The notice is the not-found one when the id does not trim to empty, a
  display name is set and the read succeeds; an id that trims to empty gets the notice that
  asks for a group id. Ids with \<open>/\<close> are left out: \<open>doc\<close> reads them as longer paths
  (see \<open>join_member_path\<close>).
\<close>

theorem join_missing_group:
  "0x2F \<notin> set (trim g) \<Longrightarrow> getDoc (trim g) (groups db) = None \<Longrightarrow>
     snd (handleJoinGroup read_ok write_ok now g s db) = db
     \<and> currentGroupId (fst (handleJoinGroup read_ok write_ok now g s db)) = currentGroupId s
     \<and> lastGroupId (fst (handleJoinGroup read_ok write_ok now g s db)) = lastGroupId s
     \<and> (\<exists>n. raised (fst (handleJoinGroup read_ok write_ok now g s db)) = raised s @ [(n, error)])
     \<and> (trim g \<noteq> [] \<and> userName s \<noteq> [] \<and> read_ok \<longrightarrow>
          notification (fst (handleJoinGroup read_ok write_ok now g s db))
            = Some (NoGroupFound, error))
     \<and> (trim g = [] \<longrightarrow>
          notification (fst (handleJoinGroup read_ok write_ok now g s db))
            = Some (PleaseEnterGroupId, error))"
proof (cases "trim g = []")
  case True
  then show ?thesis
    by (simp add: handleJoinGroup_def showNotification_def)
next
  case False
  assume "0x2F \<notin> set (trim g)" and n: "getDoc (trim g) (groups db) = None"
  with False have "groupDoc (trim g) = Some (GroupRef (trim g))"
    by (simp add: groupDoc_segment is_segment_def)
  then show ?thesis
    using False n by (simp add: handleJoinGroup_def showNotification_def)
qed

text \<open>"b" tries to join the unknown group "x", and then a blank id, in \<open>clubStore\<close>.\<close>

theorem join_missing_group_witness:
  "getDoc (trim [0x78]) (groups clubStore) = None
   \<and> snd (handleJoinGroup True True t0 [0x78] bob clubStore) = clubStore
   \<and> notification (fst (handleJoinGroup True True t0 [0x78] bob clubStore))
       = Some (NoGroupFound, error)
   \<and> notification (fst (handleJoinGroup True True t0 [0x20] bob clubStore))
       = Some (PleaseEnterGroupId, error)"
proof -
  have h1: "getDoc (trim [0x78]) (groups clubStore) = None"
    by (simp add: getDoc_def clubStore_def trim_def isWhiteSpace_def)
  have h2: "getDoc (trim [0x20]) (groups clubStore) = None"
    by (simp add: getDoc_def clubStore_def trim_def isWhiteSpace_def)
  have n1: "trim [0x78 :: 16 word] \<noteq> [] \<and> userName bob \<noteq> []"
    by (simp add: trim_def isWhiteSpace_def bob_def initialSession_def)
  have n2: "trim [0x20 :: 16 word] = []"
    by (simp add: trim_def isWhiteSpace_def)
  have s1: "0x2F \<notin> set (trim [0x78 :: 16 word])"
    by (simp add: trim_def isWhiteSpace_def)
  have s2: "0x2F \<notin> set (trim [0x20 :: 16 word])"
    by (simp add: n2)
  show ?thesis
    using h1 n1 n2 join_missing_group [OF s1 h1, of True True t0 bob]
      join_missing_group [OF s2 h2, of True True t0 bob]
    by simp
qed

text \<open>
  C5. Two successful joins of the same group by the same user with the same display name
  (the second from any session state of that user) leave exactly one member document for
  the pair (group, user), holding that name and the server time of the second call; the
  second call adds no document. The store's member documents have distinct keys and its
  group ids are single path segments.
\<close>

theorem join_twice_upsert:
  assumes "trim g \<noteq> []" and "userName s \<noteq> []" and "userId s = Some u" and "u \<noteq> []"
    and "getDoc (trim g) (groups db) \<noteq> None"
    and "distinct (map fst (members db))"
    and "userId s2 = userId s" and "userName s2 = userName s"
    and "segment_ids db"
  shows "getDoc (trim g, u)
           (members (snd (handleJoinGroup True True t2 g s2
              (snd (handleJoinGroup True True t1 g s db))))) =
           Some \<lparr>m_userName = userName s, m_joinedAt = Some t2\<rparr>
     \<and> length (filter (\<lambda>d. fst d = (trim g, u))
           (members (snd (handleJoinGroup True True t2 g s2
              (snd (handleJoinGroup True True t1 g s db)))))) = 1
     \<and> map fst (members (snd (handleJoinGroup True True t2 g s2
              (snd (handleJoinGroup True True t1 g s db))))) =
       map fst (members (snd (handleJoinGroup True True t1 g s db)))"
proof -
  let ?d1 = "\<lparr>m_userName = userName s, m_joinedAt = Some t1\<rparr>"
  let ?d2 = "\<lparr>m_userName = userName s, m_joinedAt = Some t2\<rparr>"
  let ?m1 = "setDoc (trim g, u) ?d1 (members db)"
  have "trim g \<in> fst ` set (groups db)"
    using assms(5) by (simp add: getDoc_def map_of_eq_None_iff)
  then have r: "groupDoc (trim g) = Some (GroupRef (trim g))"
    using assms(9) unfolding segment_ids_def by (blast intro: groupDoc_segment)
  have db1: "snd (handleJoinGroup True True t1 g s db) = db\<lparr>members := ?m1\<rparr>"
    using assms(1-5) r by (auto simp: handleJoinGroup_def)
  have db2: "snd (handleJoinGroup True True t2 g s2 (db\<lparr>members := ?m1\<rparr>)) =
      db\<lparr>members := setDoc (trim g, u) ?d2 ?m1\<rparr>"
    using assms(1-5,7,8) r by (auto simp: handleJoinGroup_def)
  have k: "(trim g, u) \<in> fst ` set ?m1"
    by (simp add: keys_setDoc)
  have d: "distinct (map fst ?m1)"
    using assms(6) by (rule distinct_setDoc)
  show ?thesis
    unfolding db1 db2
    using count_key_setDoc [OF d, of "(trim g, u)" ?d2] keys_setDoc_present [OF k, of ?d2]
    by (simp add: getDoc_setDoc)
qed

text \<open>"b" joins group "g" of \<open>clubStore\<close> at second 1700000100 and again at 1700000200.\<close>

theorem join_twice_upsert_witness:
  "getDoc ([0x67], [0x62])
     (members (snd (handleJoinGroup True True \<lparr>seconds = 1700000200, nanoseconds = 0\<rparr> [0x67] bob
        (snd (handleJoinGroup True True \<lparr>seconds = 1700000100, nanoseconds = 0\<rparr> [0x67] bob
           clubStore))))) =
     Some \<lparr>m_userName = [0x42], m_joinedAt = Some \<lparr>seconds = 1700000200, nanoseconds = 0\<rparr>\<rparr>
   \<and> length (filter (\<lambda>d. fst d = ([0x67], [0x62]))
     (members (snd (handleJoinGroup True True \<lparr>seconds = 1700000200, nanoseconds = 0\<rparr> [0x67] bob
        (snd (handleJoinGroup True True \<lparr>seconds = 1700000100, nanoseconds = 0\<rparr> [0x67] bob
           clubStore)))))) = 1"
proof -
  have a: "trim [0x67 :: 16 word] \<noteq> []" and tr: "trim [0x67 :: 16 word] = [0x67]"
    by (simp_all add: trim_def isWhiteSpace_def)
  have b: "userName bob \<noteq> []" and c: "userId bob = Some [0x62]" and d: "[0x62 :: 16 word] \<noteq> []"
    and nm: "userName bob = [0x42]"
    by (simp_all add: bob_def initialSession_def)
  have e: "getDoc (trim [0x67]) (groups clubStore) \<noteq> None"
    by (simp add: tr getDoc_def clubStore_def)
  have f: "distinct (map fst (members clubStore))"
    by (simp add: clubStore_def)
  have i: "segment_ids clubStore"
    by (simp add: segment_ids_def is_segment_def clubStore_def)
  show ?thesis
    using join_twice_upsert [OF a b c d e f refl refl i,
        of "\<lparr>seconds = 1700000200, nanoseconds = 0\<rparr>" "\<lparr>seconds = 1700000100, nanoseconds = 0\<rparr>"]
    by (simp add: tr nm)
qed

section \<open>Saving the display name (C6)\<close>

text \<open>
  C6. When the typed name trims to empty, \<open>handleSaveName\<close> raises the validation
  notice and leaves the store unchanged. When it does not, the user id is there and the
  store accepts the write, the user's document becomes exactly \<open>{name: trimmed}\<close>
  whatever it held before, and the profile listener called with that document sets
  \<open>userName\<close> to the trimmed name.
\<close>

theorem save_name:
  "(trim (editingName s) = [] \<longrightarrow>
      snd (handleSaveName write_ok s db) = db
      \<and> notification (fst (handleSaveName write_ok s db)) = Some (PleaseEnterName, error))
   \<and> (trim (editingName s) \<noteq> [] \<and> userId s = Some u \<and> u \<noteq> [] \<and> write_ok \<longrightarrow>
      getDoc u (users (snd (handleSaveName write_ok s db))) =
        Some [(''name'', trim (editingName s))]
      \<and> userName (onProfileSnapshot (getDoc u (users (snd (handleSaveName write_ok s db))))
           (fst (handleSaveName write_ok s db))) = trim (editingName s))"
  by (simp add: handleSaveName_def showNotification_def getDoc_setDoc onProfileSnapshot_def)

text \<open>"b" submits a blank name; "a" submits " Z " and becomes "Z".\<close>

theorem save_name_witness:
  "trim (editingName (bob\<lparr>editingName := [0x20, 0x09]\<rparr>)) = []
   \<and> snd (handleSaveName True (bob\<lparr>editingName := [0x20, 0x09]\<rparr>) clubStore) = clubStore
   \<and> trim (editingName (alice\<lparr>editingName := [0x20, 0x5A, 0x20]\<rparr>)) \<noteq> []
   \<and> getDoc [0x61]
       (users (snd (handleSaveName True (alice\<lparr>editingName := [0x20, 0x5A, 0x20]\<rparr>) clubStore)))
       = Some [(''name'', [0x5A])]
   \<and> userName (onProfileSnapshot
        (getDoc [0x61]
           (users (snd (handleSaveName True (alice\<lparr>editingName := [0x20, 0x5A, 0x20]\<rparr>) clubStore))))
        (fst (handleSaveName True (alice\<lparr>editingName := [0x20, 0x5A, 0x20]\<rparr>) clubStore))) = [0x5A]"
proof -
  have e: "trim (editingName (bob\<lparr>editingName := [0x20, 0x09]\<rparr>)) = []"
    by (simp add: trim_def isWhiteSpace_def)
  have n: "trim (editingName (alice\<lparr>editingName := [0x20, 0x5A, 0x20]\<rparr>)) = [0x5A]"
    by (simp add: trim_def isWhiteSpace_def)
  have u: "userId (alice\<lparr>editingName := [0x20, 0x5A, 0x20]\<rparr>) = Some [0x61]"
    by (simp add: alice_def initialSession_def)
  have w: "[0x61 :: 16 word] \<noteq> [] \<and> True"
    by simp
  have ne: "trim (editingName (alice\<lparr>editingName := [0x20, 0x5A, 0x20]\<rparr>)) \<noteq> []"
    unfolding n by simp
  have b: "snd (handleSaveName True (bob\<lparr>editingName := [0x20, 0x09]\<rparr>) clubStore) = clubStore"
    using save_name [of "bob\<lparr>editingName := [0x20, 0x09]\<rparr>" True clubStore] e by blast
  have "getDoc [0x61]
       (users (snd (handleSaveName True (alice\<lparr>editingName := [0x20, 0x5A, 0x20]\<rparr>) clubStore)))
       = Some [(''name'', trim (editingName (alice\<lparr>editingName := [0x20, 0x5A, 0x20]\<rparr>)))]
   \<and> userName (onProfileSnapshot
        (getDoc [0x61]
           (users (snd (handleSaveName True (alice\<lparr>editingName := [0x20, 0x5A, 0x20]\<rparr>) clubStore))))
        (fst (handleSaveName True (alice\<lparr>editingName := [0x20, 0x5A, 0x20]\<rparr>) clubStore)))
       = trim (editingName (alice\<lparr>editingName := [0x20, 0x5A, 0x20]\<rparr>))"
    using save_name [of "alice\<lparr>editingName := [0x20, 0x5A, 0x20]\<rparr>" True clubStore "[0x61]"]
      ne u w by blast
  then have a: "getDoc [0x61]
       (users (snd (handleSaveName True (alice\<lparr>editingName := [0x20, 0x5A, 0x20]\<rparr>) clubStore)))
       = Some [(''name'', [0x5A])]
   \<and> userName (onProfileSnapshot
        (getDoc [0x61]
           (users (snd (handleSaveName True (alice\<lparr>editingName := [0x20, 0x5A, 0x20]\<rparr>) clubStore))))
        (fst (handleSaveName True (alice\<lparr>editingName := [0x20, 0x5A, 0x20]\<rparr>) clubStore)))
       = [0x5A]"
    unfolding n .
  show ?thesis
    by (intro conjI) (fact e, fact b, fact ne, rule a [THEN conjunct1], rule a [THEN conjunct2])
qed

section \<open>Sending a compliment (C7, C10)\<close>

text \<open>
  C7. \<open>handleSendCompliment\<close> raises the validation notice exactly when no receiver is
  selected or the message trims to empty, and then leaves the store unchanged. Otherwise,
  when the store accepts the write under a fresh id, the store gains exactly one
  compliment, with the session's user as sender, the selected receiver, the current group,
  the message and the server's time.
\<close>

theorem send_validation:
  "(notification (fst (handleSendCompliment new_id write_ok now s db))
      = Some (SelectMemberAndMessage, error)
    \<longleftrightarrow> selectedFriendId s = [] \<or> trim (complimentMessage s) = [])
   \<and> (selectedFriendId s = [] \<or> trim (complimentMessage s) = [] \<longrightarrow>
        snd (handleSendCompliment new_id write_ok now s db) = db)
   \<and> (selectedFriendId s \<noteq> [] \<and> trim (complimentMessage s) \<noteq> [] \<and> write_ok
        \<and> new_id \<notin> fst ` set (compliments db) \<longrightarrow>
        snd (handleSendCompliment new_id write_ok now s db) =
          db\<lparr>compliments := compliments db @
             [(new_id, \<lparr>senderId = userId s, receiverId = selectedFriendId s,
                        groupId = currentGroupId s, message = complimentMessage s,
                        timestamp = Some now\<rparr>)]\<rparr>)"
  by (simp add: handleSendCompliment_def showNotification_def setDoc_fresh)

text \<open>
  "a" in group "g" sends " hi " to "b" under the fresh id "7"; with no receiver selected
  the same submit is rejected and writes nothing.
\<close>

theorem send_validation_witness:
  "selectedFriendId aliceWriting \<noteq> [] \<and> trim (complimentMessage aliceWriting) \<noteq> []
   \<and> [0x37] \<notin> fst ` set (compliments chatStore)
   \<and> snd (handleSendCompliment [0x37] True t0 aliceWriting chatStore) =
       chatStore\<lparr>compliments := compliments chatStore @
         [([0x37], \<lparr>senderId = Some [0x61], receiverId = [0x62], groupId = Some [0x67],
                    message = [0x20, 0x68, 0x69, 0x20], timestamp = Some t0\<rparr>)]\<rparr>
   \<and> selectedFriendId (aliceWriting\<lparr>selectedFriendId := []\<rparr>) = []
   \<and> notification (fst (handleSendCompliment [0x37] True t0
        (aliceWriting\<lparr>selectedFriendId := []\<rparr>) chatStore))
       = Some (SelectMemberAndMessage, error)
   \<and> snd (handleSendCompliment [0x37] True t0 (aliceWriting\<lparr>selectedFriendId := []\<rparr>) chatStore)
       = chatStore"
proof -
  have f: "selectedFriendId aliceWriting = [0x62]"
    and m: "complimentMessage aliceWriting = [0x20, 0x68, 0x69, 0x20]"
    and u: "userId aliceWriting = Some [0x61]"
    and g: "currentGroupId aliceWriting = Some [0x67]"
    by (simp_all add: aliceWriting_def aliceInGroup_def groupEffect_def truthy_def alice_def
          initialSession_def)
  have t: "trim [0x20, 0x68, 0x69, 0x20] = [0x68 :: 16 word, 0x69]"
    by (simp add: trim_def isWhiteSpace_def)
  have i: "[0x37] \<notin> fst ` set (compliments chatStore)"
    by (simp add: chatStore_def)
  show ?thesis
    using f m u g t i
      send_validation [of "[0x37]" True t0 aliceWriting chatStore]
      send_validation [of "[0x37]" True t0 "aliceWriting\<lparr>selectedFriendId := []\<rparr>" chatStore]
    by simp
qed

text \<open>
  C10. When a receiver is selected, the message does not trim to empty and the store
  accepts the write, the compliment written holds the message exactly as typed: trimming
  is used for the check only.
\<close>

theorem send_stores_message_verbatim:
  "selectedFriendId s \<noteq> [] \<Longrightarrow> trim (complimentMessage s) \<noteq> [] \<Longrightarrow> write_ok \<Longrightarrow>
     \<exists>c. getDoc new_id (compliments (snd (handleSendCompliment new_id write_ok now s db))) = Some c
        \<and> message c = complimentMessage s"
  by (simp add: handleSendCompliment_def getDoc_setDoc)

text \<open>The message " hi " is stored with both blanks, while its trimmed form is "hi".\<close>

theorem send_stores_message_verbatim_witness:
  "(\<exists>c. getDoc [0x37] (compliments (snd (handleSendCompliment [0x37] True t0 aliceWriting chatStore)))
        = Some c \<and> message c = [0x20, 0x68, 0x69, 0x20])
   \<and> trim [0x20, 0x68, 0x69, 0x20] = [0x68 :: 16 word, 0x69]"
proof -
  have f: "selectedFriendId aliceWriting \<noteq> []"
    and m: "complimentMessage aliceWriting = [0x20, 0x68, 0x69, 0x20]"
    by (simp_all add: aliceWriting_def)
  have t: "trim [0x20, 0x68, 0x69, 0x20] = [0x68 :: 16 word, 0x69]"
    by (simp add: trim_def isWhiteSpace_def)
  have n: "trim (complimentMessage aliceWriting) \<noteq> []"
    by (simp add: m t)
  show ?thesis
    using send_stores_message_verbatim [OF f n TrueI, of "[0x37]" t0 chatStore] m t by simp
qed

section \<open>A group deleted out of band (C8)\<close>

text \<open>
  C8. When the group listener is pushed a snapshot of a document that does not exist, the
  session leaves the group (no current group, remembered id cleared), but the callback
  calls \<open>showNotification\<close> twice: first with the deletion notice, then, inside
  \<open>handleLeaveGroup\<close>, with "You have left the group.", which replaces the deletion
  notice in the banner.
\<close>

theorem group_deleted_raises_two_notices:
  "currentGroupId (onGroupSnapshot None s) = None
   \<and> lastGroupId (onGroupSnapshot None s) = None
   \<and> raised (onGroupSnapshot None s) =
       raised s @ [(GroupMayBeDeleted, error), (LeftGroup, success)]
   \<and> notification (onGroupSnapshot None s) = Some (LeftGroup, success)"
  by (simp add: onGroupSnapshot_def handleLeaveGroup_def showNotification_def)

section \<open>Re-subscription (C9)\<close>

text \<open>
  C9. In a session whose attached listeners are those of the last run of the group effect,
  a change of the effect's dependencies first disposes all of them (after the cleanup no
  listener is attached) and then attaches the new ones. A later push addressed to a
  disposed listener changes nothing, and after any further sequence of events every
  attached listener is keyed by the user and group that are current then, so no update of
  a previous group reaches the views.
\<close>

theorem resubscribe_no_bleed:
  assumes "owned s"
  shows "listeners (runCleanup s) = []
     \<and> (\<forall>h \<in> set (cleanup s). deliver h db (rerunGroupEffect s) = rerunGroupEffect s)
     \<and> (\<forall>evs. \<forall>l \<in> set (listeners (fst (run evs (rerunGroupEffect s, db)))).
           keyed_by (userId (fst (run evs (rerunGroupEffect s, db))))
             (currentGroupId (fst (run evs (rerunGroupEffect s, db)))) (snd l))"
proof (intro conjI ballI allI)
  show "listeners (runCleanup s) = []"
    using assms by (rule runCleanup_listeners)
next
  fix h assume "h \<in> set (cleanup s)"
  then show "deliver h db (rerunGroupEffect s) = rerunGroupEffect s"
    using disposed_not_attached [OF assms] by (simp add: deliver_def)
next
  fix evs l
  assume l: "l \<in> set (listeners (fst (run evs (rerunGroupEffect s, db))))"
  have "attached_for_current (fst (run evs (rerunGroupEffect s, db)))"
    using run_attached [of "(rerunGroupEffect s, db)" evs] rerun_attached [OF assms] by simp
  then show "keyed_by (userId (fst (run evs (rerunGroupEffect s, db))))
             (currentGroupId (fst (run evs (rerunGroupEffect s, db)))) (snd l)"
    using l by (simp add: attached_for_current_def)
qed

text \<open>
  "a", attached to group "g" with handles 0 to 3, switches to group "h": the new listeners
  have handles 4 to 7 and are keyed by "h", and a push to handle 0 is not delivered.
\<close>

theorem resubscribe_no_bleed_witness:
  "owned (aliceInGroup\<lparr>currentGroupId := Some [0x68]\<rparr>)
   \<and> listeners aliceInGroup =
       [(0, GroupMeta [0x67]), (1, Roster [0x67]),
        (2, Received [0x61] [0x67]), (3, Sent [0x61] [0x67])]
   \<and> listeners (runCleanup (aliceInGroup\<lparr>currentGroupId := Some [0x68]\<rparr>)) = []
   \<and> listeners (rerunGroupEffect (aliceInGroup\<lparr>currentGroupId := Some [0x68]\<rparr>)) =
       [(4, GroupMeta [0x68]), (5, Roster [0x68]),
        (6, Received [0x61] [0x68]), (7, Sent [0x61] [0x68])]
   \<and> deliver 0 chatStore (rerunGroupEffect (aliceInGroup\<lparr>currentGroupId := Some [0x68]\<rparr>)) =
       rerunGroupEffect (aliceInGroup\<lparr>currentGroupId := Some [0x68]\<rparr>)"
proof -
  let ?s = "aliceInGroup\<lparr>currentGroupId := Some [0x68]\<rparr>"
  have l: "listeners aliceInGroup =
       [(0, GroupMeta [0x67]), (1, Roster [0x67]),
        (2, Received [0x61] [0x67]), (3, Sent [0x61] [0x67])]"
    and c: "cleanup ?s = [0, 1, 2, 3]" and n: "nextHandle ?s = 4"
    and u: "userId ?s = Some [0x61]" and a: "isAuthReady ?s"
    by (simp_all add: aliceInGroup_def groupEffect_def truthy_def alice_def initialSession_def)
  have o: "owned ?s"
    by (simp add: owned_def l c n)
  have r: "listeners (rerunGroupEffect ?s) =
       [(4, GroupMeta [0x68]), (5, Roster [0x68]),
        (6, Received [0x61] [0x68]), (7, Sent [0x61] [0x68])]"
    by (simp add: rerun_listeners [OF o] u a n)
  have z: "0 \<in> set (cleanup ?s)"
    by (simp add: c)
  show ?thesis
    using o l r z resubscribe_no_bleed [OF o, of chatStore] by blast
qed

end
